theory Spec2Isabelle
  imports Complex_Main "HOL-Library.Sublist"
begin

section \<open>Values of the Python program\<close>

text \<open>
  The service is one Flask module, \<^verbatim>\<open>backend/app.py\<close>. Its handlers read query
  parameters (strings that may be absent), call at most one upstream HTTP source through
  \<^verbatim>\<open>safe_get\<close>, and answer with a status code and a JSON document.

  A Python \<^verbatim>\<open>float\<close> is an IEEE double: a finite value, an infinity or NaN. The
  handlers only compare floats, and a comparison of two doubles is the comparison of the
  numbers they denote (false as soon as one side is NaN), so a finite double is modelled
  by the real number it denotes. The one literal of the source that is not itself a
  double, \<^verbatim>\<open>-87.6\<close>, denotes the double nearest to it, which lies above the decimal;
  no double lies between the two, so on doubles the comparison against the decimal agrees
  with the comparison against the literal.
\<close>

datatype pyfloat = Finite real | PosInf | NegInf | NaN

text \<open>Python's \<^verbatim>\<open>a <= b\<close> on floats.\<close>

fun fle :: "pyfloat \<Rightarrow> pyfloat \<Rightarrow> bool" where
  "fle NaN b = False"
| "fle a NaN = False"
| "fle (Finite x) (Finite y) = (x \<le> y)"
| "fle NegInf b = True"
| "fle a PosInf = True"
| "fle PosInf b = False"
| "fle a NegInf = False"

text \<open>
  JSON documents, as \<^verbatim>\<open>resp.json()\<close> returns them and \<^verbatim>\<open>jsonify\<close> sends them:
  \<^verbatim>\<open>None\<close> is \<open>JNull\<close>, a \<^verbatim>\<open>dict\<close> is the list of its items in insertion order.
\<close>

datatype json =
    JNull
  | JBool bool
  | JInt int
  | JFloat pyfloat
  | JStr string
  | JArr "json list"
  | JObj "(string \<times> json) list"

text \<open>The exceptions the module can meet; all are subclasses of \<^verbatim>\<open>Exception\<close>.\<close>

datatype py_exception =
    ValueError
  | AttributeError
  | TypeError
  | JSONDecodeError
  | ConnectionError
  | Timeout
  | ChunkedEncodingError
  | HTTPError

text \<open>
  \<^verbatim>\<open>request.args.get("lat")\<close> is \<^verbatim>\<open>None\<close> when the parameter is absent and its
  (possibly empty) string otherwise. \<^verbatim>\<open>not lat\<close> holds for \<^verbatim>\<open>None\<close> and for the
  empty string.
\<close>

fun py_not :: "string option \<Rightarrow> bool" where
  "py_not None = True"
| "py_not (Some s) = (s = [])"

text \<open>The text an f-string inserts for a query parameter.\<close>

fun str_of :: "string option \<Rightarrow> string" where
  "str_of None = ''None''"
| "str_of (Some s) = s"

text \<open>\<^verbatim>\<open>d.get(k, default)\<close> on the items of a \<^verbatim>\<open>dict\<close>.\<close>

definition dict_get :: "(string \<times> json) list \<Rightarrow> string \<Rightarrow> json \<Rightarrow> json" where
  "dict_get kvs k d = (case map_of kvs k of None \<Rightarrow> d | Some v \<Rightarrow> v)"

text \<open>
  \<^verbatim>\<open>x.get(k, default)\<close> on a decoded JSON document: only a \<^verbatim>\<open>dict\<close> has the
  method, every other value raises \<^verbatim>\<open>AttributeError\<close>.
\<close>

fun json_get :: "json \<Rightarrow> string \<Rightarrow> json \<Rightarrow> py_exception + json" where
  "json_get (JObj kvs) k d = Inr (dict_get kvs k d)"
| "json_get other k d = Inl AttributeError"

text \<open>\<^verbatim>\<open>k in d\<close> for a JSON document \<^verbatim>\<open>d\<close> that is a \<^verbatim>\<open>dict\<close>.\<close>

fun json_has_key :: "json \<Rightarrow> string \<Rightarrow> bool" where
  "json_has_key (JObj kvs) k = (map_of kvs k \<noteq> None)"
| "json_has_key other k = False"

text \<open>
  \<^verbatim>\<open>for f in x\<close>: a list yields its elements, a dict its keys, a string its
  characters; nothing else that JSON decodes to is iterable.
\<close>

fun json_iter :: "json \<Rightarrow> py_exception + json list" where
  "json_iter (JArr xs) = Inr xs"
| "json_iter (JObj kvs) = Inr (map (\<lambda>kv. JStr (fst kv)) kvs)"
| "json_iter (JStr s) = Inr (map (\<lambda>c. JStr [c]) s)"
| "json_iter other = Inl TypeError"

text \<open>
  A dict display \<^verbatim>\<open>{k1: e1, k2: e2, ...}\<close> evaluates its entries left to right; the
  first entry that raises ends the evaluation.
\<close>

fun eval_items :: "(string \<times> (py_exception + json)) list \<Rightarrow> py_exception + (string \<times> json) list" where
  "eval_items [] = Inr []"
| "eval_items ((k, Inl e) # rest) = Inl e"
| "eval_items ((k, Inr v) # rest) =
     (case eval_items rest of
        Inl e \<Rightarrow> Inl e
      | Inr kvs \<Rightarrow> Inr ((k, v) # kvs))"

definition build_dict :: "(string \<times> (py_exception + json)) list \<Rightarrow> py_exception + json" where
  "build_dict entries = (case eval_items entries of Inl e \<Rightarrow> Inl e | Inr kvs \<Rightarrow> Inr (JObj kvs))"

section \<open>The HTTP fetch helper\<close>

text \<open>
  What the handlers see of a \<^verbatim>\<open>requests.Response\<close>: its status code, its decoded
  body (\<^verbatim>\<open>resp.text\<close>) and the outcome of \<^verbatim>\<open>resp.json()\<close>, \<open>None\<close> when the body
  is not JSON and the call raises.
\<close>

record response =
  status_code :: nat
  body_text :: string
  json_result :: "json option"

record http_request =
  url :: string
  params :: "(string \<times> string) list option"
  headers :: "(string \<times> string) list option"
  timeout :: nat

text \<open>
  The world outside the process: what the upstream answers to the n-th GET (a response, or
  the exception \<^verbatim>\<open>requests.get\<close> raises: no connection, a timeout, a response that
  cannot be read), the GETs sent so far, and the lines printed so far.
\<close>

record world =
  upstream :: "nat \<Rightarrow> http_request \<Rightarrow> py_exception + response"
  sent :: "http_request list"
  stdout :: "string list"

text \<open>A world in which nothing has happened yet and every GET has the same outcome.\<close>

definition world_answering :: "py_exception + response \<Rightarrow> world" where
  "world_answering outcome = \<lparr>upstream = (\<lambda>n req. outcome), sent = [], stdout = []\<rparr>"

definition DEFAULT_TIMEOUT :: nat where
  "DEFAULT_TIMEOUT = 12"

definition requests_get :: "world \<Rightarrow> http_request \<Rightarrow> (py_exception + response) \<times> world" where
  "requests_get w req = (upstream w (length (sent w)) req, w\<lparr>sent := sent w @ [req]\<rparr>)"

text \<open>
  \<^verbatim>\<open>Response.raise_for_status\<close> of the requests library raises \<^verbatim>\<open>HTTPError\<close> for a
  status code from 400 to 599 and returns for every other one.
\<close>

definition raise_for_status :: "response \<Rightarrow> py_exception + unit" where
  "raise_for_status resp =
     (if 400 \<le> status_code resp \<and> status_code resp < 600 then Inl HTTPError else Inr ())"

text \<open>
  The truth value of a response object is its \<^verbatim>\<open>ok\<close> property: whether
  \<^verbatim>\<open>raise_for_status\<close> returns.
\<close>

definition ok :: "response \<Rightarrow> bool" where
  "ok resp = (case raise_for_status resp of Inl e \<Rightarrow> False | Inr u \<Rightarrow> True)"

text \<open>
  \<^verbatim>\<open>safe_get\<close>: one \<^verbatim>\<open>requests.get\<close> with the fixed timeout, then
  \<^verbatim>\<open>raise_for_status\<close>, both under \<^verbatim>\<open>except Exception: return None\<close>.
\<close>

definition safe_get ::
  "world \<Rightarrow> string \<Rightarrow> (string \<times> string) list option \<Rightarrow> (string \<times> string) list option
     \<Rightarrow> response option \<times> world" where
  "safe_get w u ps hs =
     (case requests_get w \<lparr>url = u, params = ps, headers = hs, timeout = DEFAULT_TIMEOUT\<rparr> of
        (Inl e, w') \<Rightarrow> (None, w')
      | (Inr resp, w') \<Rightarrow>
          (case raise_for_status resp of
             Inl e \<Rightarrow> (None, w')
           | Inr u \<Rightarrow> (Some resp, w')))"

text \<open>\<^verbatim>\<open>not resp\<close> for the optional response \<^verbatim>\<open>safe_get\<close> returns.\<close>

fun resp_not :: "response option \<Rightarrow> bool" where
  "resp_not None = True"
| "resp_not (Some resp) = (\<not> ok resp)"

type_synonym reply = "nat \<times> json"

text \<open>
  A handler returns a reply (status code and JSON body; \<^verbatim>\<open>jsonify\<close> alone answers
  200) or ends in an exception nothing catches, and leaves the world as its calls made it.
\<close>

definition jsonify :: "json \<Rightarrow> reply" where
  "jsonify j = (200, j)"

definition bad_request :: reply where
  "bad_request = (400, JObj [(''error'', JStr ''lat and lon are required'')])"

section \<open>The region classifier and the crime endpoint\<close>

text \<open>\<^verbatim>\<open>lat_lo <= lat_f <= lat_hi and lon_lo <= lon_f <= lon_hi\<close>\<close>

definition in_box :: "real \<Rightarrow> real \<Rightarrow> real \<Rightarrow> real \<Rightarrow> pyfloat \<Rightarrow> pyfloat \<Rightarrow> bool" where
  "in_box lat_lo lat_hi lon_lo lon_hi lat_f lon_f =
     ((fle (Finite lat_lo) lat_f \<and> fle lat_f (Finite lat_hi)) \<and>
      (fle (Finite lon_lo) lon_f \<and> fle lon_f (Finite lon_hi)))"

text \<open>The \<^verbatim>\<open>if\<close>/\<^verbatim>\<open>elif\<close> chain of \<^verbatim>\<open>get_crime\<close>, branch by branch.\<close>

definition state_chain :: "pyfloat \<Rightarrow> pyfloat \<Rightarrow> string option" where
  "state_chain lat_f lon_f =
    (
     if in_box 24.5 31.0 (- 87.6) (- 80.0) lat_f lon_f then Some ''FL''
     else if in_box 30.0 35.0 (- 88.0) (- 80.0) lat_f lon_f then Some ''GA''
     else if in_box 32.0 35.0 (- 88.0) (- 80.0) lat_f lon_f then Some ''SC''
     else if in_box 33.0 36.0 (- 84.0) (- 75.0) lat_f lon_f then Some ''NC''
     else if in_box 36.0 39.0 (- 84.0) (- 75.0) lat_f lon_f then Some ''VA''
     else if in_box 38.0 40.0 (- 79.0) (- 75.0) lat_f lon_f then Some ''MD''
     else if in_box 39.0 42.0 (- 80.0) (- 74.0) lat_f lon_f then Some ''PA''
     else if in_box 40.0 45.0 (- 79.0) (- 71.0) lat_f lon_f then Some ''NY''
     else if in_box 41.0 42.0 (- 73.0) (- 71.0) lat_f lon_f then Some ''CT''
     else if in_box 41.0 43.0 (- 72.0) (- 70.0) lat_f lon_f then Some ''MA''
     else if in_box 43.0 45.0 (- 72.0) (- 70.0) lat_f lon_f then Some ''VT''
     else if in_box 43.0 47.0 (- 71.0) (- 66.0) lat_f lon_f then Some ''ME''
     else if in_box 40.0 42.0 (- 75.0) (- 73.0) lat_f lon_f then Some ''NJ''
     else if in_box 38.0 40.0 (- 75.0) (- 73.0) lat_f lon_f then Some ''DE''
     else if in_box 31.0 37.0 (- 114.0) (- 109.0) lat_f lon_f then Some ''AZ''
     else if in_box 31.0 37.0 (- 115.0) (- 108.0) lat_f lon_f then Some ''AZ''
     else if in_box 31.0 37.0 (- 109.0) (- 103.0) lat_f lon_f then Some ''NM''
     else if in_box 25.0 36.0 (- 106.0) (- 93.0) lat_f lon_f then Some ''TX''
     else if in_box 33.0 37.0 (- 94.0) (- 89.0) lat_f lon_f then Some ''AR''
     else if in_box 30.0 35.0 (- 94.0) (- 88.0) lat_f lon_f then Some ''LA''
     else if in_box 30.0 35.0 (- 91.0) (- 88.0) lat_f lon_f then Some ''MS''
     else if in_box 30.0 35.0 (- 88.0) (- 84.0) lat_f lon_f then Some ''AL''
     else if in_box 24.0 31.0 (- 87.0) (- 80.0) lat_f lon_f then Some ''FL''
     else if in_box 40.0 42.0 (- 84.0) (- 80.0) lat_f lon_f then Some ''OH''
     else if in_box 37.0 40.0 (- 85.0) (- 81.0) lat_f lon_f then Some ''WV''
     else if in_box 36.0 39.0 (- 85.0) (- 81.0) lat_f lon_f then Some ''KY''
     else if in_box 35.0 37.0 (- 90.0) (- 81.0) lat_f lon_f then Some ''TN''
     else if in_box 38.0 40.0 (- 88.0) (- 84.0) lat_f lon_f then Some ''IN''
     else if in_box 37.0 42.0 (- 91.0) (- 87.0) lat_f lon_f then Some ''IL''
     else if in_box 40.0 43.0 (- 96.0) (- 90.0) lat_f lon_f then Some ''IA''
     else if in_box 42.0 47.0 (- 97.0) (- 89.0) lat_f lon_f then Some ''WI''
     else if in_box 43.0 49.0 (- 97.0) (- 89.0) lat_f lon_f then Some ''MN''
     else if in_box 40.0 43.0 (- 104.0) (- 95.0) lat_f lon_f then Some ''NE''
     else if in_box 38.0 40.0 (- 102.0) (- 94.0) lat_f lon_f then Some ''KS''
     else if in_box 35.0 37.0 (- 103.0) (- 94.0) lat_f lon_f then Some ''OK''
     else if in_box 36.0 42.0 (- 120.0) (- 114.0) lat_f lon_f then Some ''NV''
     else if in_box 32.0 42.0 (- 124.0) (- 114.0) lat_f lon_f then Some ''CA''
     else if in_box 45.0 49.0 (- 125.0) (- 116.0) lat_f lon_f then Some ''WA''
     else if in_box 42.0 46.0 (- 125.0) (- 116.0) lat_f lon_f then Some ''OR''
     else if in_box 40.0 45.0 (- 111.0) (- 104.0) lat_f lon_f then Some ''CO''
     else if in_box 41.0 45.0 (- 112.0) (- 104.0) lat_f lon_f then Some ''UT''
     else if in_box 42.0 49.0 (- 117.0) (- 104.0) lat_f lon_f then Some ''MT''
     else if in_box 44.0 49.0 (- 117.0) (- 104.0) lat_f lon_f then Some ''ND''
     else if in_box 43.0 46.0 (- 104.0) (- 96.0) lat_f lon_f then Some ''SD''
     else if in_box 40.0 43.0 (- 104.0) (- 95.0) lat_f lon_f then Some ''WY''
     else if in_box 45.0 49.0 (- 125.0) (- 66.0) lat_f lon_f then Some ''AK''
     else if in_box 18.0 22.0 (- 162.0) (- 154.0) lat_f lon_f then Some ''HI''
     else None)"

text \<open>
  The catch-all that follows the chain: it is only looked at while \<^verbatim>\<open>state_abbr\<close> is
  still \<^verbatim>\<open>None\<close>.
\<close>

definition state_abbr_of :: "pyfloat \<Rightarrow> pyfloat \<Rightarrow> string option" where
  "state_abbr_of lat_f lon_f =
     (case state_chain lat_f lon_f of
        Some s \<Rightarrow> Some s
      | None \<Rightarrow> if in_box 33.0 34.0 (- 112.5) (- 111.0) lat_f lon_f then Some ''AZ'' else None)"

text \<open>
  The same predicates as a sequence, in the order the source evaluates them: the 47
  branches of the chain, then the catch-all.
\<close>

datatype box = Box (lat_lo: real) (lat_hi: real) (lon_lo: real) (lon_hi: real) (code: string)

definition inside :: "pyfloat \<Rightarrow> pyfloat \<Rightarrow> box \<Rightarrow> bool" where
  "inside lat_f lon_f b = in_box (lat_lo b) (lat_hi b) (lon_lo b) (lon_hi b) lat_f lon_f"

definition chain_boxes :: "box list" where
  "chain_boxes =
    [
     Box 24.5 31.0 (- 87.6) (- 80.0) ''FL'',
     Box 30.0 35.0 (- 88.0) (- 80.0) ''GA'',
     Box 32.0 35.0 (- 88.0) (- 80.0) ''SC'',
     Box 33.0 36.0 (- 84.0) (- 75.0) ''NC'',
     Box 36.0 39.0 (- 84.0) (- 75.0) ''VA'',
     Box 38.0 40.0 (- 79.0) (- 75.0) ''MD'',
     Box 39.0 42.0 (- 80.0) (- 74.0) ''PA'',
     Box 40.0 45.0 (- 79.0) (- 71.0) ''NY'',
     Box 41.0 42.0 (- 73.0) (- 71.0) ''CT'',
     Box 41.0 43.0 (- 72.0) (- 70.0) ''MA'',
     Box 43.0 45.0 (- 72.0) (- 70.0) ''VT'',
     Box 43.0 47.0 (- 71.0) (- 66.0) ''ME'',
     Box 40.0 42.0 (- 75.0) (- 73.0) ''NJ'',
     Box 38.0 40.0 (- 75.0) (- 73.0) ''DE'',
     Box 31.0 37.0 (- 114.0) (- 109.0) ''AZ'',
     Box 31.0 37.0 (- 115.0) (- 108.0) ''AZ'',
     Box 31.0 37.0 (- 109.0) (- 103.0) ''NM'',
     Box 25.0 36.0 (- 106.0) (- 93.0) ''TX'',
     Box 33.0 37.0 (- 94.0) (- 89.0) ''AR'',
     Box 30.0 35.0 (- 94.0) (- 88.0) ''LA'',
     Box 30.0 35.0 (- 91.0) (- 88.0) ''MS'',
     Box 30.0 35.0 (- 88.0) (- 84.0) ''AL'',
     Box 24.0 31.0 (- 87.0) (- 80.0) ''FL'',
     Box 40.0 42.0 (- 84.0) (- 80.0) ''OH'',
     Box 37.0 40.0 (- 85.0) (- 81.0) ''WV'',
     Box 36.0 39.0 (- 85.0) (- 81.0) ''KY'',
     Box 35.0 37.0 (- 90.0) (- 81.0) ''TN'',
     Box 38.0 40.0 (- 88.0) (- 84.0) ''IN'',
     Box 37.0 42.0 (- 91.0) (- 87.0) ''IL'',
     Box 40.0 43.0 (- 96.0) (- 90.0) ''IA'',
     Box 42.0 47.0 (- 97.0) (- 89.0) ''WI'',
     Box 43.0 49.0 (- 97.0) (- 89.0) ''MN'',
     Box 40.0 43.0 (- 104.0) (- 95.0) ''NE'',
     Box 38.0 40.0 (- 102.0) (- 94.0) ''KS'',
     Box 35.0 37.0 (- 103.0) (- 94.0) ''OK'',
     Box 36.0 42.0 (- 120.0) (- 114.0) ''NV'',
     Box 32.0 42.0 (- 124.0) (- 114.0) ''CA'',
     Box 45.0 49.0 (- 125.0) (- 116.0) ''WA'',
     Box 42.0 46.0 (- 125.0) (- 116.0) ''OR'',
     Box 40.0 45.0 (- 111.0) (- 104.0) ''CO'',
     Box 41.0 45.0 (- 112.0) (- 104.0) ''UT'',
     Box 42.0 49.0 (- 117.0) (- 104.0) ''MT'',
     Box 44.0 49.0 (- 117.0) (- 104.0) ''ND'',
     Box 43.0 46.0 (- 104.0) (- 96.0) ''SD'',
     Box 40.0 43.0 (- 104.0) (- 95.0) ''WY'',
     Box 45.0 49.0 (- 125.0) (- 66.0) ''AK'',
     Box 18.0 22.0 (- 162.0) (- 154.0) ''HI''
    ]"

definition catch_all_box :: box where
  "catch_all_box = Box 33.0 34.0 (- 112.5) (- 111.0) ''AZ''"

definition all_boxes :: "box list" where
  "all_boxes = chain_boxes @ [catch_all_box]"

text \<open>The eight counts of one row of the statistics table, under the keys every row uses.\<close>

definition crime_record :: "int \<Rightarrow> int \<Rightarrow> int \<Rightarrow> int \<Rightarrow> int \<Rightarrow> int \<Rightarrow> int \<Rightarrow> int \<Rightarrow> json" where
  "crime_record homicide robbery aggravated_assault burglary larceny motor_vehicle_theft
       violent_crime property_crime =
     JObj [(''homicide'', JInt homicide), (''robbery'', JInt robbery),
           (''aggravated_assault'', JInt aggravated_assault), (''burglary'', JInt burglary),
           (''larceny'', JInt larceny), (''motor_vehicle_theft'', JInt motor_vehicle_theft),
           (''violent_crime'', JInt violent_crime), (''property_crime'', JInt property_crime)]"

definition state_crime_rates :: "(string \<times> json) list" where
  "state_crime_rates =
    [
     (''NY'', crime_record 5 120 180 280 1200 150 305 1630),
     (''CA'', crime_record 4 95 220 320 1400 280 319 2000),
     (''TX'', crime_record 6 110 250 350 1100 200 366 1650),
     (''FL'', crime_record 7 130 200 300 1000 180 337 1480),
     (''AZ'', crime_record 8 140 280 400 900 250 428 1550),
     (''IL'', crime_record 9 150 300 450 800 220 459 1470),
     (''PA'', crime_record 5 100 180 250 700 150 285 1100),
     (''OH'', crime_record 6 110 200 280 750 160 316 1190),
     (''GA'', crime_record 7 120 220 320 850 180 347 1350),
     (''NC'', crime_record 6 105 190 270 720 140 301 1130),
     (''MI'', crime_record 8 125 240 350 780 200 373 1330),
     (''NJ'', crime_record 4 90 160 220 650 120 254 990),
     (''VA'', crime_record 5 95 170 240 680 130 270 1050),
     (''WA'', crime_record 4 85 150 200 600 110 239 910),
     (''MA'', crime_record 3 80 140 180 550 100 223 830),
     (''TN'', crime_record 7 115 210 290 760 170 332 1220),
     (''IN'', crime_record 6 100 180 260 700 150 286 1110),
     (''MO'', crime_record 8 130 250 340 820 190 388 1350),
     (''MD'', crime_record 9 140 270 380 900 210 419 1490),
     (''WI'', crime_record 5 90 160 220 620 120 255 960),
     (''CO'', crime_record 4 85 150 200 580 110 239 890),
     (''MN'', crime_record 3 75 130 180 520 100 208 800),
     (''SC'', crime_record 8 125 230 320 800 180 363 1300),
     (''AL'', crime_record 9 135 260 360 850 200 404 1420),
     (''LA'', crime_record 12 160 320 420 950 250 492 1620),
     (''KY'', crime_record 6 105 190 270 720 150 301 1140),
     (''OR'', crime_record 4 80 140 190 560 110 224 860),
     (''OK'', crime_record 7 115 220 300 750 170 342 1220),
     (''CT'', crime_record 3 70 120 160 480 90 193 730),
     (''UT'', crime_record 2 60 100 140 400 80 162 620),
     (''IA'', crime_record 2 55 90 120 350 70 147 540),
     (''NV'', crime_record 6 110 200 280 700 160 316 1140),
     (''AR'', crime_record 8 125 240 330 780 180 373 1290),
     (''MS'', crime_record 10 145 280 380 900 220 435 1500),
     (''KS'', crime_record 5 90 160 220 620 130 255 970),
     (''NM'', crime_record 8 130 250 340 800 190 388 1330),
     (''NE'', crime_record 3 65 110 150 420 90 178 660),
     (''WV'', crime_record 6 100 180 250 680 140 286 1070),
     (''ID'', crime_record 2 50 80 110 320 60 132 490),
     (''HI'', crime_record 2 45 70 100 280 50 117 430),
     (''NH'', crime_record 1 40 60 80 240 40 101 360),
     (''ME'', crime_record 1 35 50 70 200 35 86 305),
     (''MT'', crime_record 2 45 70 90 260 50 117 400),
     (''RI'', crime_record 2 50 80 100 300 60 132 460),
     (''DE'', crime_record 4 70 120 160 480 100 194 740),
     (''SD'', crime_record 2 40 60 80 220 40 102 340),
     (''ND'', crime_record 1 30 40 60 160 30 71 250),
     (''AK'', crime_record 4 60 100 120 360 80 164 560),
     (''VT'', crime_record 1 25 35 50 140 25 61 215),
     (''WY'', crime_record 1 20 30 40 120 20 51 180)
    ]"

text \<open>The default of \<^verbatim>\<open>state_crime_rates.get(state_abbr, {...})\<close>.\<close>

definition default_crime_data :: json where
  "default_crime_data = crime_record 5 100 180 250 700 150 285 1100"

definition demo_stats :: json where
  "demo_stats =
     JObj [(''homicide'', JInt 3), (''robbery'', JInt 55), (''aggravated_assault'', JInt 210),
           (''burglary'', JInt 230), (''larceny'', JInt 900), (''motor_vehicle_theft'', JInt 220),
           (''violent_crime'', JInt 420), (''property_crime'', JInt 1350), (''year'', JInt 2023)]"

text \<open>\<^verbatim>\<open>state_abbr and len(state_abbr) == 2\<close>\<close>

fun state_resolved :: "string option \<Rightarrow> bool" where
  "state_resolved None = False"
| "state_resolved (Some s) = (s \<noteq> [] \<and> length s = 2)"

fun json_of_state :: "string option \<Rightarrow> json" where
  "json_of_state None = JNull"
| "json_of_state (Some s) = JStr s"

definition print_line :: "world \<Rightarrow> string \<Rightarrow> world" where
  "print_line w l = w\<lparr>stdout := stdout w @ [l]\<rparr>"

text \<open>What the handler answers once the state is known.\<close>

definition crime_reply :: "string option \<Rightarrow> reply" where
  "crime_reply state_abbr =
     (if state_resolved state_abbr then
        (let crime_data = dict_get state_crime_rates (str_of state_abbr) default_crime_data
         in jsonify (JObj [(''scope'', JStr ''state''), (''source'', JStr ''mock''),
                           (''state'', json_of_state state_abbr), (''stats'', crime_data)]))
      else
        jsonify (JObj [(''scope'', JStr ''demo''), (''source'', JStr ''demo''),
                       (''state'', json_of_state state_abbr), (''stats'', demo_stats)]))"

text \<open>
  \<^verbatim>\<open>get_crime\<close>. Python's \<^verbatim>\<open>float\<close> is the parameter \<open>py_float\<close>: \<open>None\<close> where
  it raises \<^verbatim>\<open>ValueError\<close>. Nothing in the handler catches that exception.
\<close>

definition get_crime ::
  "(string \<Rightarrow> pyfloat option) \<Rightarrow> world \<Rightarrow> string option \<Rightarrow> string option
     \<Rightarrow> (py_exception + reply) \<times> world" where
  "get_crime py_float w lat lon =
     (if py_not lat \<or> py_not lon then (Inr bad_request, w)
      else
        (case py_float (str_of lat) of
           None \<Rightarrow> (Inl ValueError, w)
         | Some lat_f \<Rightarrow>
             (case py_float (str_of lon) of
                None \<Rightarrow> (Inl ValueError, w)
              | Some lon_f \<Rightarrow>
                  (let state_abbr = state_abbr_of lat_f lon_f;
                       w' = print_line w
                              (''DEBUG: Coordinates '' @ str_of lat @ '','' @ str_of lon
                                 @ '' mapped to state: '' @ str_of state_abbr)
                   in (Inr (crime_reply state_abbr), w')))))"

text \<open>
  The theorems about \<^verbatim>\<open>get_crime\<close> hold for every parser. The examples use this
  one: it answers as Python's \<^verbatim>\<open>float\<close> does on the four strings they pass
  (\<^verbatim>\<open>float("abc")\<close> raises), and the three values are doubles.
\<close>

definition example_float :: "string \<Rightarrow> pyfloat option" where
  "example_float s =
     (if s = ''33.5'' then Some (Finite 33.5)
      else if s = ''-112'' then Some (Finite (- 112))
      else if s = ''0'' then Some (Finite 0)
      else None)"

section \<open>The weather endpoint\<close>

text \<open>\<^verbatim>\<open>sep.join(xs)\<close>\<close>

fun join :: "string \<Rightarrow> string list \<Rightarrow> string" where
  "join sep [] = []"
| "join sep [x] = x"
| "join sep (x # y # ys) = x @ sep @ join sep (y # ys)"

text \<open>The upstream call of \<^verbatim>\<open>get_weather\<close>.\<close>

definition weather_fetch :: "world \<Rightarrow> string option \<Rightarrow> string option \<Rightarrow> response option \<times> world" where
  "weather_fetch w lat lon =
     (let ps = [(''latitude'', str_of lat), (''longitude'', str_of lon),
                (''current'', join '',''
                   [''temperature_2m'', ''precipitation'', ''wind_speed_10m'',
                    ''relative_humidity_2m'', ''weather_code''])]
      in safe_get w ''https://api.open-meteo.com/v1/forecast'' (Some ps) None)"

definition get_weather ::
  "world \<Rightarrow> string option \<Rightarrow> string option \<Rightarrow> (py_exception + reply) \<times> world" where
  "get_weather w lat lon =
     (if py_not lat \<or> py_not lon then (Inr bad_request, w)
      else
        (case weather_fetch w lat lon of
           (resp, w') \<Rightarrow>
             if resp_not resp then
               (Inr (502, JObj [(''current'', JNull), (''source'', JStr ''open-meteo''),
                                (''note'', JStr ''unavailable'')]), w')
             else
               (case resp of
                  None \<Rightarrow> (Inl AttributeError, w')
                | Some r \<Rightarrow>
                    (case json_result r of
                       None \<Rightarrow> (Inl JSONDecodeError, w')
                     | Some data \<Rightarrow>
                         (case json_get data ''current'' (JObj []) of
                            Inl e \<Rightarrow> (Inl e, w')
                          | Inr cur \<Rightarrow>
                              (Inr (jsonify (JObj [(''current'', cur),
                                                   (''source'', JStr ''open-meteo'')])), w'))))))"

section \<open>The alerts endpoint\<close>

text \<open>The record the loop appends for one feature \<^verbatim>\<open>f\<close>.\<close>

definition alert_of :: "json \<Rightarrow> py_exception + json" where
  "alert_of f =
     (case json_get f ''properties'' (JObj []) of
        Inl e \<Rightarrow> Inl e
      | Inr props \<Rightarrow>
          build_dict
            [(''id'', json_get f ''id'' JNull),
             (''event'', json_get props ''event'' JNull),
             (''headline'', json_get props ''headline'' JNull),
             (''areaDesc'', json_get props ''areaDesc'' JNull),
             (''severity'', json_get props ''severity'' JNull),
             (''urgency'', json_get props ''urgency'' JNull),
             (''effective'', json_get props ''effective'' JNull),
             (''expires'', json_get props ''expires'' JNull),
             (''instruction'', json_get props ''instruction'' JNull)])"

text \<open>
  The \<^verbatim>\<open>for\<close> loop: \<^verbatim>\<open>alerts\<close> grows by one record per feature. The result is the
  exception that ended the loop, if one did, and \<^verbatim>\<open>alerts\<close> as the loop left it.
\<close>

fun alerts_loop :: "json list \<Rightarrow> json list \<Rightarrow> py_exception option \<times> json list" where
  "alerts_loop [] alerts = (None, alerts)"
| "alerts_loop (f # fs) alerts =
     (case alert_of f of
        Inl e \<Rightarrow> (Some e, alerts)
      | Inr a \<Rightarrow> alerts_loop fs (alerts @ [a]))"

text \<open>The body of the \<^verbatim>\<open>try\<close> block, started with the \<^verbatim>\<open>alerts\<close> it finds.\<close>

definition alerts_try :: "response \<Rightarrow> json list \<Rightarrow> py_exception option \<times> json list" where
  "alerts_try nws alerts =
     (case json_result nws of
        None \<Rightarrow> (Some JSONDecodeError, alerts)
      | Some data \<Rightarrow>
          (case json_get data ''features'' (JArr []) of
             Inl e \<Rightarrow> (Some e, alerts)
           | Inr features \<Rightarrow>
               (case json_iter features of
                  Inl e \<Rightarrow> (Some e, alerts)
                | Inr fs \<Rightarrow> alerts_loop fs alerts)))"

text \<open>The upstream call of \<^verbatim>\<open>get_alerts\<close>.\<close>

definition alerts_fetch :: "world \<Rightarrow> string option \<Rightarrow> string option \<Rightarrow> response option \<times> world" where
  "alerts_fetch w lat lon =
     safe_get w ''https://api.weather.gov/alerts/active''
       (Some [(''point'', str_of lat @ '','' @ str_of lon)])
       (Some [(''Accept'', ''application/geo+json'')])"

definition get_alerts ::
  "world \<Rightarrow> string option \<Rightarrow> string option \<Rightarrow> (py_exception + reply) \<times> world" where
  "get_alerts w lat lon =
     (if py_not lat \<or> py_not lon then (Inr bad_request, w)
      else
        (case alerts_fetch w lat lon of
           (nws, w') \<Rightarrow>
             (let alerts =
                    (case nws of
                       None \<Rightarrow> []
                     | Some r \<Rightarrow>
                         if ok r then
                           (case alerts_try r [] of
                              (None, filled) \<Rightarrow> filled
                            | (Some e, partial) \<Rightarrow> [])
                         else [])
              in (Inr (jsonify (JObj [(''alerts'', JArr alerts), (''source'', JStr ''NWS'')])), w'))))"

section \<open>The missing-person feed endpoint\<close>

text \<open>
  \<^verbatim>\<open>s.find(sub)\<close>: the lowest index at which \<^verbatim>\<open>sub\<close> occurs in \<^verbatim>\<open>s\<close>, or -1.
\<close>

fun find_from :: "string \<Rightarrow> string \<Rightarrow> int \<Rightarrow> int" where
  "find_from sub [] i = (if sub = [] then i else - 1)"
| "find_from sub (c # cs) i = (if prefix sub (c # cs) then i else find_from sub cs (i + 1))"

definition str_find :: "string \<Rightarrow> string \<Rightarrow> int" where
  "str_find s sub = find_from sub s 0"

text \<open>
  \<^verbatim>\<open>s[a:b]\<close>: a negative bound counts from the end, and both bounds are clipped to
  the string.
\<close>

definition slice_bound :: "nat \<Rightarrow> int \<Rightarrow> nat" where
  "slice_bound n i = (if i < 0 then nat (max 0 (int n + i)) else min n (nat i))"

definition slice :: "string \<Rightarrow> int \<Rightarrow> int \<Rightarrow> string" where
  "slice s a b = drop (slice_bound (length s) a) (take (slice_bound (length s) b) s)"

text \<open>
  \<^verbatim>\<open>c.isspace()\<close> for the characters a \<open>char\<close> covers (code points below 256), and
  \<^verbatim>\<open>s.strip()\<close>.
\<close>

definition isspace :: "char \<Rightarrow> bool" where
  "isspace c =
     (let n = (of_char c :: nat)
      in (9 \<le> n \<and> n \<le> 13) \<or> (28 \<le> n \<and> n \<le> 32) \<or> n = 133 \<or> n = 160)"

definition strip :: "string \<Rightarrow> string" where
  "strip s = rev (dropWhile isspace (rev (dropWhile isspace s)))"

text \<open>
  \<^verbatim>\<open>s.split(sep)\<close> for a separator that is not empty: cut at the leftmost occurrence,
  go on behind it. (Python raises \<^verbatim>\<open>ValueError\<close> for an empty separator.)
\<close>

function split_at :: "string \<Rightarrow> string \<Rightarrow> string list" where
  "split_at sep s =
     (if sep = [] \<or> str_find s sep < 0 then [s]
      else take (nat (str_find s sep)) s
             # split_at sep (drop (nat (str_find s sep) + length sep) s))"
  by pat_completeness auto

termination
proof (relation "measure (\<lambda>(sep, s). length s)")
  show "wf (measure (\<lambda>(sep, s). length s))"
    by simp
next
  fix sep s :: string
  assume found: "\<not> (sep = [] \<or> str_find s sep < 0)"
  then have "s \<noteq> []"
    by (auto simp: str_find_def)
  moreover from found have "0 < length sep"
    by simp
  ultimately have "length (drop (nat (str_find s sep) + length sep) s) < length s"
    by simp
  then show "((sep, drop (nat (str_find s sep) + length sep) s), (sep, s))
               \<in> measure (\<lambda>(sep, s). length s)"
    by simp
qed

declare split_at.simps [simp del]

definition str_split :: "string \<Rightarrow> string \<Rightarrow> py_exception + string list" where
  "str_split s sep = (if sep = [] then Inl ValueError else Inr (split_at sep s))"

text \<open>The body of the loop over the chunks: one item of the feed.\<close>

definition extract_item :: "string \<Rightarrow> json" where
  "extract_item chunk =
     (let title_start = str_find chunk ''<title>'';
          title_end = str_find chunk ''</title>'';
          link_start = str_find chunk ''<link>'';
          link_end = str_find chunk ''</link>'';
          desc_start = str_find chunk ''<description>'';
          desc_end = str_find chunk ''</description>'';
          title = (if title_start \<noteq> - 1 \<and> title_end \<noteq> - 1
                   then strip (slice chunk (title_start + 7) title_end)
                   else ''AMBER Alert'');
          link = (if link_start \<noteq> - 1 \<and> link_end \<noteq> - 1
                  then strip (slice chunk (link_start + 6) link_end)
                  else []);
          description = (if desc_start \<noteq> - 1 \<and> desc_end \<noteq> - 1
                         then strip (slice chunk (desc_start + 13) desc_end)
                         else [])
      in JObj [(''title'', JStr title), (''link'', JStr link),
               (''description'', JStr description)])"

text \<open>\<^verbatim>\<open>text.split("<item>")[1:]\<close>, then the loop.\<close>

definition extract_items :: "string \<Rightarrow> py_exception + json list" where
  "extract_items body =
     (case str_split body ''<item>'' of
        Inl e \<Rightarrow> Inl e
      | Inr chunks \<Rightarrow> Inr (map extract_item (drop 1 chunks)))"

definition get_amber :: "world \<Rightarrow> (py_exception + reply) \<times> world" where
  "get_amber w =
     (case safe_get w ''https://www.missingkids.org/feeds/amber.xml'' None None of
        (resp, w') \<Rightarrow>
          if resp_not resp then
            (Inr (502, JObj [(''items'', JArr []), (''source'', JStr ''NCMEC''),
                             (''note'', JStr ''unavailable'')]), w')
          else
            (case resp of
               None \<Rightarrow> (Inl AttributeError, w')
             | Some r \<Rightarrow>
                 (case extract_items (body_text r) of
                    Inl e \<Rightarrow> (Inl e, w')
                  | Inr items \<Rightarrow>
                      (Inr (jsonify (JObj [(''items'', JArr items),
                                           (''source'', JStr ''NCMEC'')])), w'))))"


section \<open>Properties of the region classifier\<close>

lemma in_box_Finite:
  "in_box a b c d lat_f lon_f \<longleftrightarrow>
     (\<exists>x y. lat_f = Finite x \<and> lon_f = Finite y \<and> a \<le> x \<and> x \<le> b \<and> c \<le> y \<and> y \<le> d)"
  by (cases lat_f; cases lon_f) (auto simp: in_box_def)

lemma find_append_boxes:
  "List.find P (xs @ ys) = (case List.find P xs of None \<Rightarrow> List.find P ys | Some x \<Rightarrow> Some x)"
  by (induction xs) auto

text \<open>The chain is the first match over the sequence of its predicates.\<close>

lemma state_chain_first_match:
  "state_chain lat_f lon_f = map_option code (List.find (inside lat_f lon_f) chain_boxes)"
  by (simp add: state_chain_def chain_boxes_def inside_def)

lemma state_abbr_first_match:
  "state_abbr_of lat_f lon_f = map_option code (List.find (inside lat_f lon_f) all_boxes)"
  by (simp add: state_abbr_of_def all_boxes_def find_append_boxes state_chain_first_match
      catch_all_box_def inside_def split: option.splits)

lemma catch_all_in_chain:
  "inside lat_f lon_f catch_all_box \<Longrightarrow> inside lat_f lon_f (chain_boxes ! 14)"
  by (auto simp: inside_def catch_all_box_def chain_boxes_def in_box_Finite)

lemma box_codes_in_table:
  "\<forall>b \<in> set all_boxes. map_of state_crime_rates (code b) \<noteq> None \<and> length (code b) = 2"
  by (simp add: all_boxes_def chain_boxes_def catch_all_box_def state_crime_rates_def)

lemma table_rows_no_year:
  "\<forall>kv \<in> set state_crime_rates. \<not> json_has_key (snd kv) ''year''"
  by (simp add: state_crime_rates_def crime_record_def)

lemma state_abbr_is_box_code:
  assumes "state_abbr_of lat_f lon_f = Some c"
  shows "\<exists>b \<in> set all_boxes. c = code b \<and> inside lat_f lon_f b"
proof -
  from assms obtain b where "List.find (inside lat_f lon_f) all_boxes = Some b" and "c = code b"
    by (auto simp: state_abbr_first_match)
  then show ?thesis
    by (auto simp: find_Some_iff)
qed

lemma chain_hit_when_inside:
  assumes "k < length chain_boxes" "inside lat_f lon_f (chain_boxes ! k)"
  shows "state_chain lat_f lon_f \<noteq> None"
proof -
  have "\<exists>b \<in> set chain_boxes. inside lat_f lon_f b"
    using assms nth_mem by blast
  then have "List.find (inside lat_f lon_f) chain_boxes \<noteq> None"
    by (auto simp: find_None_iff)
  then show ?thesis
    by (simp add: state_chain_first_match)
qed

lemma crime_reply_world_free:
  "fst (get_crime py_float w lat lon) = fst (get_crime py_float w' lat lon)"
  by (simp add: get_crime_def Let_def split: option.splits)

text \<open>
  Claim C9. For every coordinate, the classifier with its trailing catch-all computes what
  the chain alone computes. Every coordinate inside the catch-all box (latitude in
  [33, 34], longitude in [-112.5, -111]) is inside the box of the fifteenth branch of the
  chain, the AZ box with latitude in [31, 37] and longitude in [-114, -109]; so the chain
  has already assigned a state and the catch-all never does.
\<close>

theorem catch_all_never_assigns:
  "state_abbr_of lat_f lon_f = state_chain lat_f lon_f \<and>
   (inside lat_f lon_f catch_all_box \<longrightarrow> inside lat_f lon_f (chain_boxes ! 14)) \<and>
   catch_all_box = Box 33.0 34.0 (- 112.5) (- 111.0) ''AZ'' \<and>
   chain_boxes ! 14 = Box 31.0 37.0 (- 114.0) (- 109.0) ''AZ''"
proof (intro conjI impI)
  show "inside lat_f lon_f catch_all_box \<Longrightarrow> inside lat_f lon_f (chain_boxes ! 14)"
    by (rule catch_all_in_chain)
  show "catch_all_box = Box 33.0 34.0 (- 112.5) (- 111.0) ''AZ''"
    by (simp add: catch_all_box_def)
  show "chain_boxes ! 14 = Box 31.0 37.0 (- 114.0) (- 109.0) ''AZ''"
    by (simp add: chain_boxes_def)
  show "state_abbr_of lat_f lon_f = state_chain lat_f lon_f"
  proof (cases "state_chain lat_f lon_f")
    case (Some s)
    then show ?thesis by (simp add: state_abbr_of_def)
  next
    case None
    have "\<not> inside lat_f lon_f catch_all_box"
    proof
      assume "inside lat_f lon_f catch_all_box"
      then have "inside lat_f lon_f (chain_boxes ! 14)"
        by (rule catch_all_in_chain)
      moreover have "14 < length chain_boxes"
        by (simp add: chain_boxes_def)
      ultimately have "state_chain lat_f lon_f \<noteq> None"
        using chain_hit_when_inside by blast
      with None show False by simp
    qed
    with None show ?thesis
      by (simp add: state_abbr_of_def inside_def catch_all_box_def)
  qed
qed

text \<open>The witness: a point in Phoenix lies in both boxes, and the chain answers AZ.\<close>

theorem catch_all_never_assigns_witness:
  "inside (Finite 33.45) (Finite (- 112.07)) catch_all_box \<and>
   inside (Finite 33.45) (Finite (- 112.07)) (chain_boxes ! 14) \<and>
   state_abbr_of (Finite 33.45) (Finite (- 112.07)) = state_chain (Finite 33.45) (Finite (- 112.07)) \<and>
   state_chain (Finite 33.45) (Finite (- 112.07)) = Some ''AZ''"
  using catch_all_never_assigns [of "Finite 33.45" "Finite (- 112.07)"]
  by (simp add: inside_def catch_all_box_def in_box_def state_chain_def)


text \<open>
  Claim C5. For every coordinate that lies inside two (or more) boxes of the sequence, the
  classifier resolves the code of the box that comes first in source order among those
  the coordinate lies in. The resolution is a function of the coordinate alone: whatever
  has happened before (the world the handler runs in), the crime endpoint answers from
  that same state.
\<close>

theorem first_box_wins:
  assumes "i < j" and "j < length all_boxes"
    and "inside lat_f lon_f (all_boxes ! i)" and "inside lat_f lon_f (all_boxes ! j)"
  shows "(\<exists>k. k \<le> i \<and> inside lat_f lon_f (all_boxes ! k) \<and>
              (\<forall>m < k. \<not> inside lat_f lon_f (all_boxes ! m)) \<and>
              state_abbr_of lat_f lon_f = Some (code (all_boxes ! k))) \<and>
         (\<forall>py_float w w' lat lon.
              py_float lat = Some lat_f \<and> py_float lon = Some lon_f \<and> lat \<noteq> [] \<and> lon \<noteq> [] \<longrightarrow>
              fst (get_crime py_float w (Some lat) (Some lon))
                = Inr (crime_reply (state_abbr_of lat_f lon_f)) \<and>
              fst (get_crime py_float w' (Some lat) (Some lon))
                = fst (get_crime py_float w (Some lat) (Some lon)))"
proof (intro conjI allI impI)
  have "i < length all_boxes"
    using assms(1,2) by simp
  then have "all_boxes ! i \<in> set all_boxes"
    by simp
  with assms(3) have "List.find (inside lat_f lon_f) all_boxes \<noteq> None"
    by (auto simp: find_None_iff)
  then obtain b where found: "List.find (inside lat_f lon_f) all_boxes = Some b"
    by auto
  then obtain k where k: "k < length all_boxes" "inside lat_f lon_f (all_boxes ! k)"
      "b = all_boxes ! k" "\<forall>m < k. \<not> inside lat_f lon_f (all_boxes ! m)"
    by (auto simp: find_Some_iff)
  have "k \<le> i"
  proof (rule ccontr)
    assume "\<not> k \<le> i"
    then have "i < k" by simp
    with k(4) assms(3) show False by blast
  qed
  moreover have "state_abbr_of lat_f lon_f = Some (code (all_boxes ! k))"
    using found k(3) by (simp add: state_abbr_first_match)
  ultimately show "\<exists>k. k \<le> i \<and> inside lat_f lon_f (all_boxes ! k) \<and>
              (\<forall>m < k. \<not> inside lat_f lon_f (all_boxes ! m)) \<and>
              state_abbr_of lat_f lon_f = Some (code (all_boxes ! k))"
    using k(2,4) by blast
next
  fix py_float :: "string \<Rightarrow> pyfloat option" and w w' :: world and lat lon :: string
  assume "py_float lat = Some lat_f \<and> py_float lon = Some lon_f \<and> lat \<noteq> [] \<and> lon \<noteq> []"
  then show "fst (get_crime py_float w (Some lat) (Some lon))
               = Inr (crime_reply (state_abbr_of lat_f lon_f))"
    by (simp add: get_crime_def Let_def)
  show "fst (get_crime py_float w' (Some lat) (Some lon))
          = fst (get_crime py_float w (Some lat) (Some lon))"
    by (rule crime_reply_world_free)
qed

text \<open>
  The witness: latitude 33, longitude -85 lies in the GA box (second in the sequence) and
  in the SC box (third), and in no earlier one; the classifier answers GA.
\<close>

theorem first_box_wins_witness:
  "(1::nat) < 2 \<and> 2 < length all_boxes \<and>
   inside (Finite 33) (Finite (- 85)) (all_boxes ! 1) \<and>
   inside (Finite 33) (Finite (- 85)) (all_boxes ! 2) \<and>
   \<not> inside (Finite 33) (Finite (- 85)) (all_boxes ! 0) \<and>
   code (all_boxes ! 1) = ''GA'' \<and> code (all_boxes ! 2) = ''SC'' \<and>
   state_abbr_of (Finite 33) (Finite (- 85)) = Some ''GA''"
proof -
  have len: "2 < length all_boxes"
    by (simp add: all_boxes_def chain_boxes_def)
  have b1: "all_boxes ! 1 = Box 30.0 35.0 (- 88.0) (- 80.0) ''GA''"
    by (simp add: all_boxes_def chain_boxes_def)
  have b2: "all_boxes ! 2 = Box 32.0 35.0 (- 88.0) (- 80.0) ''SC''"
    by (simp add: all_boxes_def chain_boxes_def)
  have b0: "all_boxes ! 0 = Box 24.5 31.0 (- 87.6) (- 80.0) ''FL''"
    by (simp add: all_boxes_def chain_boxes_def)
  have in1: "inside (Finite 33) (Finite (- 85)) (all_boxes ! 1)"
    unfolding b1 by (simp add: inside_def in_box_def)
  have in2: "inside (Finite 33) (Finite (- 85)) (all_boxes ! 2)"
    unfolding b2 by (simp add: inside_def in_box_def)
  have out0: "\<not> inside (Finite 33) (Finite (- 85)) (all_boxes ! 0)"
    unfolding b0 by (simp add: inside_def in_box_def)
  from first_box_wins [OF _ len in1 in2]
  obtain k where k: "k \<le> 1" "inside (Finite 33) (Finite (- 85)) (all_boxes ! k)"
      "state_abbr_of (Finite 33) (Finite (- 85)) = Some (code (all_boxes ! k))"
    by auto
  from k(1,2) out0 have "k = 1"
    by (cases k) auto
  with k(3) b1 have "state_abbr_of (Finite 33) (Finite (- 85)) = Some ''GA''"
    by simp
  with len in1 in2 out0 b1 b2 show ?thesis
    by simp
qed

lemma resolved_code_has_row:
  assumes "state_abbr_of lat_f lon_f = Some c"
  shows "\<exists>row. map_of state_crime_rates c = Some row \<and>
           crime_reply (state_abbr_of lat_f lon_f) =
             (200, JObj [(''scope'', JStr ''state''), (''source'', JStr ''mock''),
                         (''state'', JStr c), (''stats'', row)])"
proof -
  from assms obtain b where b: "b \<in> set all_boxes" "c = code b"
    using state_abbr_is_box_code by blast
  with box_codes_in_table have "map_of state_crime_rates c \<noteq> None" and len: "length c = 2"
    by auto
  then obtain row where row: "map_of state_crime_rates c = Some row"
    by auto
  from len have "c \<noteq> []"
    by auto
  with len assms row have "crime_reply (state_abbr_of lat_f lon_f) =
      (200, JObj [(''scope'', JStr ''state''), (''source'', JStr ''mock''),
                  (''state'', JStr c), (''stats'', row)])"
    by (simp add: crime_reply_def jsonify_def dict_get_def)
  with row show ?thesis
    by blast
qed

text \<open>
  Claim C10. Every region code the classifier produces for some coordinate is a key of
  the statistics table: the lookup \<^verbatim>\<open>state_crime_rates.get(state_abbr, default)\<close>
  finds a row, so whatever record is written as its default, the reply carries the
  table's row and never the default.
\<close>

theorem produced_codes_in_table:
  assumes "state_abbr_of lat_f lon_f = Some c"
  shows "\<exists>row. map_of state_crime_rates c = Some row \<and>
           (\<forall>d. dict_get state_crime_rates c d = row) \<and>
           crime_reply (state_abbr_of lat_f lon_f) =
             (200, JObj [(''scope'', JStr ''state''), (''source'', JStr ''mock''),
                         (''state'', JStr c), (''stats'', row)])"
proof -
  from resolved_code_has_row [OF assms] obtain row where
    row: "map_of state_crime_rates c = Some row"
    and rep: "crime_reply (state_abbr_of lat_f lon_f) =
      (200, JObj [(''scope'', JStr ''state''), (''source'', JStr ''mock''),
                  (''state'', JStr c), (''stats'', row)])"
    by blast
  from row have "\<forall>d. dict_get state_crime_rates c d = row"
    by (simp add: dict_get_def)
  with row rep show ?thesis
    by blast
qed

text \<open>
  The witness: a coordinate in Pennsylvania's box. Its row happens to hold the same eight
  counts as the default record; it is the row of the table all the same.
\<close>

theorem produced_codes_in_table_witness:
  "state_abbr_of (Finite 40.5) (Finite (- 77)) = Some ''PA'' \<and>
   (\<exists>row. map_of state_crime_rates ''PA'' = Some row \<and>
      (\<forall>d. dict_get state_crime_rates ''PA'' d = row) \<and>
      crime_reply (state_abbr_of (Finite 40.5) (Finite (- 77))) =
        (200, JObj [(''scope'', JStr ''state''), (''source'', JStr ''mock''),
                    (''state'', JStr ''PA''), (''stats'', row)]))"
proof -
  have pa: "state_abbr_of (Finite 40.5) (Finite (- 77)) = Some ''PA''"
    by (simp add: state_abbr_of_def state_chain_def in_box_def)
  from produced_codes_in_table [OF pa] pa show ?thesis
    by simp
qed


section \<open>Properties of the crime endpoint\<close>

text \<open>
  Claim C6. Take a request to the crime endpoint whose two coordinates are given and
  parse as floats. If the coordinate resolves to a region code, the reply is 200 with
  scope "state", the code under "state" and a statistics record without a "year" field,
  and this record is exactly the table's entry for every code the table has. If the
  coordinate resolves to no region, the reply is 200 with scope "demo", a null region
  field and the demo record, which has a "year" field.
\<close>

theorem crime_scopes:
  assumes "\<not> py_not lat" and "\<not> py_not lon"
    and "py_float (str_of lat) = Some lat_f" and "py_float (str_of lon) = Some lon_f"
  shows "(\<forall>c. state_abbr_of lat_f lon_f = Some c \<longrightarrow>
            (\<exists>stats. fst (get_crime py_float w lat lon) =
                        Inr (200, JObj [(''scope'', JStr ''state''), (''source'', JStr ''mock''),
                                        (''state'', JStr c), (''stats'', stats)]) \<and>
                     \<not> json_has_key stats ''year'' \<and>
                     (\<forall>row. map_of state_crime_rates c = Some row \<longrightarrow> stats = row))) \<and>
         (state_abbr_of lat_f lon_f = None \<longrightarrow>
            fst (get_crime py_float w lat lon) =
              Inr (200, JObj [(''scope'', JStr ''demo''), (''source'', JStr ''demo''),
                              (''state'', JNull), (''stats'', demo_stats)]) \<and>
            json_has_key demo_stats ''year'')"
proof (intro conjI allI impI)
  have reply: "fst (get_crime py_float w lat lon) = Inr (crime_reply (state_abbr_of lat_f lon_f))"
    using assms by (simp add: get_crime_def Let_def)
  {
    fix c
    assume c: "state_abbr_of lat_f lon_f = Some c"
    from resolved_code_has_row [OF c] obtain row where
      row: "map_of state_crime_rates c = Some row"
      and rep: "crime_reply (state_abbr_of lat_f lon_f) =
        (200, JObj [(''scope'', JStr ''state''), (''source'', JStr ''mock''),
                    (''state'', JStr c), (''stats'', row)])"
      by blast
    from row have "(c, row) \<in> set state_crime_rates"
      by (rule map_of_SomeD)
    with table_rows_no_year have "\<not> json_has_key row ''year''"
      by fastforce
    with row rep reply
    show "\<exists>stats. fst (get_crime py_float w lat lon) =
                        Inr (200, JObj [(''scope'', JStr ''state''), (''source'', JStr ''mock''),
                                        (''state'', JStr c), (''stats'', stats)]) \<and>
                     \<not> json_has_key stats ''year'' \<and>
                     (\<forall>row. map_of state_crime_rates c = Some row \<longrightarrow> stats = row)"
      by simp
  }
  {
    assume "state_abbr_of lat_f lon_f = None"
    with reply show "fst (get_crime py_float w lat lon) =
              Inr (200, JObj [(''scope'', JStr ''demo''), (''source'', JStr ''demo''),
                              (''state'', JNull), (''stats'', demo_stats)])"
      by (simp add: crime_reply_def jsonify_def)
  }
  show "json_has_key demo_stats ''year''"
    by (simp add: demo_stats_def)
qed

text \<open>
  The witness: Phoenix resolves to AZ and gets the AZ row; latitude 0, longitude 0
  resolves to no region and gets the demo record.
\<close>

theorem crime_scopes_witness:
  "\<not> py_not (Some ''33.5'') \<and> \<not> py_not (Some ''-112'') \<and> \<not> py_not (Some ''0'') \<and>
   example_float (str_of (Some ''33.5'')) = Some (Finite 33.5) \<and>
   example_float (str_of (Some ''-112'')) = Some (Finite (- 112)) \<and>
   example_float (str_of (Some ''0'')) = Some (Finite 0) \<and>
   state_abbr_of (Finite 33.5) (Finite (- 112)) = Some ''AZ'' \<and>
   map_of state_crime_rates ''AZ'' = Some (crime_record 8 140 280 400 900 250 428 1550) \<and>
   fst (get_crime example_float (world_answering (Inl Timeout)) (Some ''33.5'') (Some ''-112'')) =
     Inr (200, JObj [(''scope'', JStr ''state''), (''source'', JStr ''mock''),
                     (''state'', JStr ''AZ''),
                     (''stats'', crime_record 8 140 280 400 900 250 428 1550)]) \<and>
   state_abbr_of (Finite 0) (Finite 0) = None \<and>
   fst (get_crime example_float (world_answering (Inl Timeout)) (Some ''0'') (Some ''0'')) =
     Inr (200, JObj [(''scope'', JStr ''demo''), (''source'', JStr ''demo''),
                     (''state'', JNull), (''stats'', demo_stats)])"
proof -
  have p: "\<not> py_not (Some ''33.5'')" "\<not> py_not (Some ''-112'')" "\<not> py_not (Some ''0'')"
    by simp_all
  have f: "example_float (str_of (Some ''33.5'')) = Some (Finite 33.5)"
      "example_float (str_of (Some ''-112'')) = Some (Finite (- 112))"
      "example_float (str_of (Some ''0'')) = Some (Finite 0)"
    by (simp_all add: example_float_def)
  have az: "state_abbr_of (Finite 33.5) (Finite (- 112)) = Some ''AZ''"
    by (simp add: state_abbr_of_def state_chain_def in_box_def)
  have none: "state_abbr_of (Finite 0) (Finite 0) = None"
    by (simp add: state_abbr_of_def state_chain_def in_box_def)
  have row: "map_of state_crime_rates ''AZ'' = Some (crime_record 8 140 280 400 900 250 428 1550)"
    by (simp add: state_crime_rates_def)
  note phoenix =
    crime_scopes [where py_float = example_float and w = "world_answering (Inl Timeout)",
      OF p(1) p(2) f(1) f(2)]
  note origin =
    crime_scopes [where py_float = example_float and w = "world_answering (Inl Timeout)",
      OF p(3) p(3) f(3) f(3)]
  from phoenix az row
  have r1: "fst (get_crime example_float (world_answering (Inl Timeout)) (Some ''33.5'') (Some ''-112'')) =
     Inr (200, JObj [(''scope'', JStr ''state''), (''source'', JStr ''mock''),
                     (''state'', JStr ''AZ''),
                     (''stats'', crime_record 8 140 280 400 900 250 428 1550)])"
    by auto
  from origin none
  have r2: "fst (get_crime example_float (world_answering (Inl Timeout)) (Some ''0'') (Some ''0'')) =
     Inr (200, JObj [(''scope'', JStr ''demo''), (''source'', JStr ''demo''),
                     (''state'', JNull), (''stats'', demo_stats)])"
    by simp
  from p f az none row r1 r2 show ?thesis
    by simp
qed


section \<open>Properties of the fetch helper\<close>

lemma safe_get_result:
  "fst (safe_get w u ps hs) =
     (case upstream w (length (sent w))
             \<lparr>url = u, params = ps, headers = hs, timeout = DEFAULT_TIMEOUT\<rparr> of
        Inl e \<Rightarrow> None
      | Inr resp \<Rightarrow>
          if 400 \<le> status_code resp \<and> status_code resp < 600 then None else Some resp)"
  by (simp add: safe_get_def requests_get_def raise_for_status_def split: sum.splits)

lemma safe_get_world:
  "snd (safe_get w u ps hs) =
     w\<lparr>sent := sent w @ [\<lparr>url = u, params = ps, headers = hs, timeout = DEFAULT_TIMEOUT\<rparr>]\<rparr>"
  by (simp add: safe_get_def requests_get_def raise_for_status_def split: sum.splits)

lemma safe_get_Some_ok:
  assumes "fst (safe_get w u ps hs) = Some r"
  shows "ok r"
  using assms
  by (auto simp: safe_get_result ok_def raise_for_status_def split: sum.splits if_splits)

text \<open>
  Claim C7, as the code has it. For every URL, parameter set and header set the helper
  sends exactly one GET (with the 12 second timeout) and always ends with a result: the
  response, when \<^verbatim>\<open>requests.get\<close> returns one whose status is not in 400..599, and
  the unavailable outcome when \<^verbatim>\<open>requests.get\<close> raises (no connection, timeout, a
  response that cannot be read) or the status is in 400..599. In particular every
  response with a 2xx status is returned. No exception reaches the caller: the result is
  an optional response.
\<close>

theorem safe_get_one_attempt:
  "snd (safe_get w u ps hs) =
     w\<lparr>sent := sent w @ [\<lparr>url = u, params = ps, headers = hs, timeout = 12\<rparr>]\<rparr> \<and>
   fst (safe_get w u ps hs) =
     (case upstream w (length (sent w)) \<lparr>url = u, params = ps, headers = hs, timeout = 12\<rparr> of
        Inl e \<Rightarrow> None
      | Inr resp \<Rightarrow>
          if 400 \<le> status_code resp \<and> status_code resp < 600 then None else Some resp) \<and>
   (\<forall>resp. upstream w (length (sent w)) \<lparr>url = u, params = ps, headers = hs, timeout = 12\<rparr>
             = Inr resp \<and> 200 \<le> status_code resp \<and> status_code resp < 300 \<longrightarrow>
           fst (safe_get w u ps hs) = Some resp)"
proof (intro conjI allI impI)
  show "snd (safe_get w u ps hs) =
      w\<lparr>sent := sent w @ [\<lparr>url = u, params = ps, headers = hs, timeout = 12\<rparr>]\<rparr>"
    by (simp add: safe_get_world DEFAULT_TIMEOUT_def)
  show res: "fst (safe_get w u ps hs) =
     (case upstream w (length (sent w)) \<lparr>url = u, params = ps, headers = hs, timeout = 12\<rparr> of
        Inl e \<Rightarrow> None
      | Inr resp \<Rightarrow>
          if 400 \<le> status_code resp \<and> status_code resp < 600 then None else Some resp)"
    by (simp add: safe_get_result DEFAULT_TIMEOUT_def)
  fix resp
  assume "upstream w (length (sent w)) \<lparr>url = u, params = ps, headers = hs, timeout = 12\<rparr>
            = Inr resp \<and> 200 \<le> status_code resp \<and> status_code resp < 300"
  with res show "fst (safe_get w u ps hs) = Some resp"
    by simp
qed

text \<open>
  The witness: a 200 is returned, a 503 and a timeout are reported as unavailable, and
  each call adds one GET to those sent.
\<close>

theorem safe_get_one_attempt_witness:
  "fst (safe_get (world_answering (Inr \<lparr>status_code = 200, body_text = ''{}'', json_result = Some (JObj [])\<rparr>))
          ''https://api.weather.gov/alerts/active'' None None)
     = Some \<lparr>status_code = 200, body_text = ''{}'', json_result = Some (JObj [])\<rparr> \<and>
   fst (safe_get (world_answering (Inr \<lparr>status_code = 503, body_text = [], json_result = None\<rparr>))
          ''https://api.weather.gov/alerts/active'' None None) = None \<and>
   fst (safe_get (world_answering (Inl Timeout)) ''https://api.weather.gov/alerts/active'' None None)
     = None \<and>
   length (sent (snd (safe_get (world_answering (Inl Timeout))
                        ''https://api.weather.gov/alerts/active'' None None))) = 1"
  using
    safe_get_one_attempt [of "world_answering (Inr \<lparr>status_code = 200, body_text = ''{}'', json_result = Some (JObj [])\<rparr>)"
      "''https://api.weather.gov/alerts/active''" None None]
    safe_get_one_attempt [of "world_answering (Inr \<lparr>status_code = 503, body_text = [], json_result = None\<rparr>)"
      "''https://api.weather.gov/alerts/active''" None None]
    safe_get_one_attempt [of "world_answering (Inl Timeout)"
      "''https://api.weather.gov/alerts/active''" None None]
  by (simp add: world_answering_def)

text \<open>
  Against the claim as the specification words it ("unavailable for a non-2xx status"):
  a 304 is not a 2xx status, \<^verbatim>\<open>raise_for_status\<close> does not raise for it, and the
  helper returns the response.
\<close>

theorem safe_get_non_2xx_counterexample:
  "fst (safe_get (world_answering (Inr \<lparr>status_code = 304, body_text = [], json_result = None\<rparr>))
          ''https://api.open-meteo.com/v1/forecast'' None None)
     = Some \<lparr>status_code = 304, body_text = [], json_result = None\<rparr> \<and>
   \<not> (200 \<le> status_code \<lparr>status_code = 304, body_text = [], json_result = None\<rparr> \<and>
        status_code \<lparr>status_code = 304, body_text = [], json_result = None\<rparr> < 300)"
  by (simp add: safe_get_result world_answering_def)

section \<open>Properties shared by the coordinate endpoints\<close>

text \<open>
  Claim C1. A coordinate parameter is missing when the handler's test \<^verbatim>\<open>not lat\<close>
  (or \<^verbatim>\<open>not lon\<close>) holds: the parameter is absent from the query, or given with an
  empty value. For every request to the weather, the alerts or the crime endpoint in
  which \<^verbatim>\<open>lat\<close> or \<^verbatim>\<open>lon\<close> is missing, whichever of the two it is, the reply is
  400 with the JSON body \<^verbatim>\<open>{"error": "lat and lon are required"}\<close>, and nothing is
  sent upstream.
\<close>

theorem missing_coordinate_400:
  assumes "py_not lat \<or> py_not lon"
  shows "get_weather w lat lon = (Inr (400, JObj [(''error'', JStr ''lat and lon are required'')]), w) \<and>
         get_alerts w lat lon = (Inr (400, JObj [(''error'', JStr ''lat and lon are required'')]), w) \<and>
         get_crime py_float w lat lon
           = (Inr (400, JObj [(''error'', JStr ''lat and lon are required'')]), w)"
  using assms by (auto simp: get_weather_def get_alerts_def get_crime_def bad_request_def)

text \<open>
  The witness: the crime endpoint without \<^verbatim>\<open>lat\<close>, the weather endpoint without
  \<^verbatim>\<open>lon\<close>, the alerts endpoint with neither.
\<close>

theorem missing_coordinate_400_witness:
  "(py_not None \<or> py_not (Some ''-112'')) \<and> (py_not (Some ''33.5'') \<or> py_not None) \<and>
   fst (get_crime example_float (world_answering (Inl Timeout)) None (Some ''-112''))
     = Inr (400, JObj [(''error'', JStr ''lat and lon are required'')]) \<and>
   fst (get_weather (world_answering (Inl Timeout)) (Some ''33.5'') None)
     = Inr (400, JObj [(''error'', JStr ''lat and lon are required'')]) \<and>
   fst (get_alerts (world_answering (Inl Timeout)) None None)
     = Inr (400, JObj [(''error'', JStr ''lat and lon are required'')])"
proof -
  have a: "py_not None \<or> py_not (Some ''-112'')" and b: "py_not (Some ''33.5'') \<or> py_not None"
    and c: "py_not None \<or> py_not None"
    by simp_all
  from missing_coordinate_400 [OF a] missing_coordinate_400 [OF b] missing_coordinate_400 [OF c]
    a b show ?thesis
    by simp
qed


section \<open>Properties of the weather endpoint\<close>

lemma weather_fetch_Some_ok:
  assumes "fst (weather_fetch w lat lon) = Some r"
  shows "ok r"
  using assms safe_get_Some_ok by (simp add: weather_fetch_def Let_def)

lemma alerts_fetch_Some_ok:
  assumes "fst (alerts_fetch w lat lon) = Some r"
  shows "ok r"
  using assms safe_get_Some_ok by (simp add: alerts_fetch_def)

lemma get_weather_unavailable:
  assumes "\<not> py_not lat" and "\<not> py_not lon" and "fst (weather_fetch w lat lon) = None"
  shows "fst (get_weather w lat lon) =
           Inr (502, JObj [(''current'', JNull), (''source'', JStr ''open-meteo''),
                           (''note'', JStr ''unavailable'')])"
  using assms by (simp add: get_weather_def case_prod_beta)

lemma get_weather_object:
  assumes "\<not> py_not lat" and "\<not> py_not lon"
    and "fst (weather_fetch w lat lon) = Some r" and "json_result r = Some (JObj kvs)"
  shows "fst (get_weather w lat lon) =
           Inr (200, JObj [(''current'', dict_get kvs ''current'' (JObj [])),
                           (''source'', JStr ''open-meteo'')])"
proof -
  from assms(3) have "ok r"
    by (rule weather_fetch_Some_ok)
  with assms show ?thesis
    by (simp add: get_weather_def jsonify_def case_prod_beta)
qed

text \<open>
  Where the fetch succeeds and the body is not a JSON object, the handler does not reply:
  \<^verbatim>\<open>resp.json()\<close> or \<^verbatim>\<open>data.get\<close> raises, and nothing catches it.
\<close>

lemma get_weather_no_object:
  assumes "\<not> py_not lat" and "\<not> py_not lon" and "fst (weather_fetch w lat lon) = Some r"
    and "\<forall>kvs. json_result r \<noteq> Some (JObj kvs)"
  shows "\<exists>e. fst (get_weather w lat lon) = Inl e"
proof -
  from assms(3) have "ok r"
    by (rule weather_fetch_Some_ok)
  show ?thesis
  proof (cases "json_result r")
    case None
    with assms \<open>ok r\<close> show ?thesis
      by (simp add: get_weather_def case_prod_beta)
  next
    case (Some data)
    with assms(4) have "json_get data ''current'' (JObj []) = Inl AttributeError"
      by (cases data) simp_all
    with Some assms \<open>ok r\<close> show ?thesis
      by (simp add: get_weather_def case_prod_beta)
  qed
qed





section \<open>Properties of the alerts endpoint\<close>

lemma alerts_loop_raises:
  assumes "f \<in> set fs" and "alert_of f = Inl e"
  shows "\<exists>e' partial. alerts_loop fs alerts = (Some e', partial)"
  using assms
proof (induction fs arbitrary: alerts)
  case Nil
  then show ?case by simp
next
  case (Cons g gs)
  show ?case
  proof (cases "alert_of g")
    case (Inl e')
    then show ?thesis by simp
  next
    case (Inr a)
    with Cons.prems have "f \<in> set gs"
      by auto
    with Cons.IH Cons.prems(2) Inr show ?thesis
      by simp
  qed
qed

lemma get_alerts_always_200:
  assumes "\<not> py_not lat" and "\<not> py_not lon"
  shows "\<exists>alerts. fst (get_alerts w lat lon) =
           Inr (200, JObj [(''alerts'', JArr alerts), (''source'', JStr ''NWS'')])"
  using assms by (simp add: get_alerts_def jsonify_def case_prod_beta Let_def)

lemma get_alerts_unavailable:
  assumes "\<not> py_not lat" and "\<not> py_not lon" and "fst (alerts_fetch w lat lon) = None"
  shows "fst (get_alerts w lat lon) =
           Inr (200, JObj [(''alerts'', JArr []), (''source'', JStr ''NWS'')])"
  using assms by (simp add: get_alerts_def jsonify_def case_prod_beta Let_def)

lemma get_alerts_failed_projection:
  assumes "\<not> py_not lat" and "\<not> py_not lon"
    and "fst (alerts_fetch w lat lon) = Some r" and "json_result r = Some data"
    and "json_get data ''features'' (JArr []) = Inr features" and "json_iter features = Inr fs"
    and "f \<in> set fs" and "alert_of f = Inl e"
  shows "fst (get_alerts w lat lon) =
           Inr (200, JObj [(''alerts'', JArr []), (''source'', JStr ''NWS'')])"
proof -
  from assms(7,8) obtain e' partial where "alerts_loop fs [] = (Some e', partial)"
    using alerts_loop_raises by blast
  with assms(4,5,6) have "alerts_try r [] = (Some e', partial)"
    by (simp add: alerts_try_def)
  with assms(1,2,3) show ?thesis
    by (simp add: get_alerts_def jsonify_def case_prod_beta Let_def)
qed

text \<open>
  Claim C3. Take a request to the alerts endpoint with both coordinates present (each
  given with a value that is not empty). The reply is always 200 with a list under
  \<^verbatim>\<open>alerts\<close> and the source tag, never 502. When the upstream call is unavailable the
  list is empty. When the upstream answers and one of the features the loop walks over
  fails projection, the list is empty as well, whatever records the loop had appended
  before it failed.
\<close>

theorem alerts_empty_on_failure:
  assumes "\<not> py_not lat" and "\<not> py_not lon"
  shows "(\<exists>alerts. fst (get_alerts w lat lon) =
            Inr (200, JObj [(''alerts'', JArr alerts), (''source'', JStr ''NWS'')])) \<and>
         (fst (alerts_fetch w lat lon) = None \<longrightarrow>
            fst (get_alerts w lat lon) =
              Inr (200, JObj [(''alerts'', JArr []), (''source'', JStr ''NWS'')])) \<and>
         (\<forall>r data features fs f e.
            fst (alerts_fetch w lat lon) = Some r \<and> json_result r = Some data \<and>
            json_get data ''features'' (JArr []) = Inr features \<and> json_iter features = Inr fs \<and>
            f \<in> set fs \<and> alert_of f = Inl e \<longrightarrow>
            fst (get_alerts w lat lon) =
              Inr (200, JObj [(''alerts'', JArr []), (''source'', JStr ''NWS'')]))"
proof (intro conjI allI impI)
  show "\<exists>alerts. fst (get_alerts w lat lon) =
            Inr (200, JObj [(''alerts'', JArr alerts), (''source'', JStr ''NWS'')])"
    using assms by (rule get_alerts_always_200)
next
  assume "fst (alerts_fetch w lat lon) = None"
  with assms show "fst (get_alerts w lat lon) =
      Inr (200, JObj [(''alerts'', JArr []), (''source'', JStr ''NWS'')])"
    by (rule get_alerts_unavailable)
next
  fix r data features fs f e
  assume "fst (alerts_fetch w lat lon) = Some r \<and> json_result r = Some data \<and>
            json_get data ''features'' (JArr []) = Inr features \<and> json_iter features = Inr fs \<and>
            f \<in> set fs \<and> alert_of f = Inl e"
  with assms show "fst (get_alerts w lat lon) =
      Inr (200, JObj [(''alerts'', JArr []), (''source'', JStr ''NWS'')])"
    using get_alerts_failed_projection by blast
qed

text \<open>
  The witness: the upstream answers 200 with two features, a well-formed one and a string.
  The loop appends the record of the first and fails on the second; the reply carries the
  empty list, not the one record. A refused connection gives the empty list too.
\<close>

theorem alerts_empty_on_failure_witness:
  "\<not> py_not (Some ''33.5'') \<and> \<not> py_not (Some ''-112'') \<and>
   alert_of (JStr ''oops'') = Inl AttributeError \<and>
   alerts_loop
     [JObj [(''id'', JStr ''urn:1''), (''properties'', JObj [(''event'', JStr ''Flood Warning'')])],
      JStr ''oops''] []
     = (Some AttributeError,
        [JObj [(''id'', JStr ''urn:1''), (''event'', JStr ''Flood Warning''), (''headline'', JNull),
               (''areaDesc'', JNull), (''severity'', JNull), (''urgency'', JNull),
               (''effective'', JNull), (''expires'', JNull), (''instruction'', JNull)]]) \<and>
   fst (get_alerts
          (world_answering (Inr \<lparr>status_code = 200, body_text = [],
             json_result = Some (JObj [(''features'', JArr
               [JObj [(''id'', JStr ''urn:1''),
                      (''properties'', JObj [(''event'', JStr ''Flood Warning'')])],
                JStr ''oops''])])\<rparr>))
          (Some ''33.5'') (Some ''-112''))
     = Inr (200, JObj [(''alerts'', JArr []), (''source'', JStr ''NWS'')]) \<and>
   fst (get_alerts (world_answering (Inl ConnectionError)) (Some ''33.5'') (Some ''-112''))
     = Inr (200, JObj [(''alerts'', JArr []), (''source'', JStr ''NWS'')])"
proof -
  have p: "\<not> py_not (Some ''33.5'')" "\<not> py_not (Some ''-112'')"
    by simp_all
  have bad: "alert_of (JStr ''oops'') = Inl AttributeError"
    by (simp add: alert_of_def)
  have good: "alert_of (JObj [(''id'', JStr ''urn:1''),
                   (''properties'', JObj [(''event'', JStr ''Flood Warning'')])])
        = Inr (JObj [(''id'', JStr ''urn:1''), (''event'', JStr ''Flood Warning''), (''headline'', JNull),
               (''areaDesc'', JNull), (''severity'', JNull), (''urgency'', JNull),
               (''effective'', JNull), (''expires'', JNull), (''instruction'', JNull)])"
    by (simp add: alert_of_def build_dict_def dict_get_def)
  have loop: "alerts_loop
     [JObj [(''id'', JStr ''urn:1''), (''properties'', JObj [(''event'', JStr ''Flood Warning'')])],
      JStr ''oops''] []
     = (Some AttributeError,
        [JObj [(''id'', JStr ''urn:1''), (''event'', JStr ''Flood Warning''), (''headline'', JNull),
               (''areaDesc'', JNull), (''severity'', JNull), (''urgency'', JNull),
               (''effective'', JNull), (''expires'', JNull), (''instruction'', JNull)]])"
    by (simp add: good bad)
  have f1: "fst (alerts_fetch
          (world_answering (Inr \<lparr>status_code = 200, body_text = [],
             json_result = Some (JObj [(''features'', JArr
               [JObj [(''id'', JStr ''urn:1''),
                      (''properties'', JObj [(''event'', JStr ''Flood Warning'')])],
                JStr ''oops''])])\<rparr>))
          (Some ''33.5'') (Some ''-112''))
      = Some \<lparr>status_code = 200, body_text = [],
             json_result = Some (JObj [(''features'', JArr
               [JObj [(''id'', JStr ''urn:1''),
                      (''properties'', JObj [(''event'', JStr ''Flood Warning'')])],
                JStr ''oops''])])\<rparr>"
    by (simp add: alerts_fetch_def safe_get_result world_answering_def)
  have f0: "fst (alerts_fetch (world_answering (Inl ConnectionError)) (Some ''33.5'') (Some ''-112''))
      = None"
    by (simp add: alerts_fetch_def safe_get_result world_answering_def)
  from alerts_empty_on_failure [OF p] f1 bad
  have r1: "fst (get_alerts
          (world_answering (Inr \<lparr>status_code = 200, body_text = [],
             json_result = Some (JObj [(''features'', JArr
               [JObj [(''id'', JStr ''urn:1''),
                      (''properties'', JObj [(''event'', JStr ''Flood Warning'')])],
                JStr ''oops''])])\<rparr>))
          (Some ''33.5'') (Some ''-112''))
     = Inr (200, JObj [(''alerts'', JArr []), (''source'', JStr ''NWS'')])"
    by (fastforce simp: dict_get_def)
  from alerts_empty_on_failure [OF p] f0
  have r0: "fst (get_alerts (world_answering (Inl ConnectionError)) (Some ''33.5'') (Some ''-112''))
     = Inr (200, JObj [(''alerts'', JArr []), (''source'', JStr ''NWS'')])"
    by simp
  from p bad loop r1 r0 show ?thesis
    by simp
qed


section \<open>Non-numeric coordinates\<close>

lemma get_weather_sample_worlds:
  assumes "\<not> py_not lat" and "\<not> py_not lon"
  shows "fst (get_weather (world_answering (Inl Timeout)) lat lon) =
           Inr (502, JObj [(''current'', JNull), (''source'', JStr ''open-meteo''),
                           (''note'', JStr ''unavailable'')])"
    and "fst (get_weather
               (world_answering (Inr \<lparr>status_code = 200, body_text = ''{}'',
                                       json_result = Some (JObj [])\<rparr>)) lat lon) =
           Inr (200, JObj [(''current'', JObj []), (''source'', JStr ''open-meteo'')])"
proof -
  have "fst (weather_fetch (world_answering (Inl Timeout)) lat lon) = None"
    by (simp add: weather_fetch_def safe_get_result world_answering_def)
  with assms show "fst (get_weather (world_answering (Inl Timeout)) lat lon) =
           Inr (502, JObj [(''current'', JNull), (''source'', JStr ''open-meteo''),
                           (''note'', JStr ''unavailable'')])"
    by (rule get_weather_unavailable)
  have "fst (weather_fetch
               (world_answering (Inr \<lparr>status_code = 200, body_text = ''{}'',
                                       json_result = Some (JObj [])\<rparr>)) lat lon)
          = Some \<lparr>status_code = 200, body_text = ''{}'', json_result = Some (JObj [])\<rparr>"
    by (simp add: weather_fetch_def safe_get_result world_answering_def)
  with assms have "fst (get_weather
               (world_answering (Inr \<lparr>status_code = 200, body_text = ''{}'',
                                       json_result = Some (JObj [])\<rparr>)) lat lon) =
           Inr (200, JObj [(''current'', dict_get [] ''current'' (JObj [])),
                           (''source'', JStr ''open-meteo'')])"
    by (simp add: get_weather_object)
  then show "fst (get_weather
               (world_answering (Inr \<lparr>status_code = 200, body_text = ''{}'',
                                       json_result = Some (JObj [])\<rparr>)) lat lon) =
           Inr (200, JObj [(''current'', JObj []), (''source'', JStr ''open-meteo'')])"
    by (simp add: dict_get_def)
qed

text \<open>
  Claim C8. Take a request in which \<^verbatim>\<open>lat\<close> and \<^verbatim>\<open>lon\<close> are both present (each
  given with a value that is not empty) and \<^verbatim>\<open>float\<close> rejects at least one of them.
  The crime endpoint ends in the \<^verbatim>\<open>ValueError\<close> of the conversion, which nothing
  catches: there is no reply, and nothing has been printed or sent. The weather and the
  alerts endpoint never convert the coordinates: for the same request the alerts endpoint
  replies 200 in every world, and the weather endpoint replies 502 where the upstream
  times out and 200 where the upstream answers with a JSON object.
\<close>

theorem crime_float_unguarded:
  assumes "\<not> py_not lat" and "\<not> py_not lon"
    and "py_float (str_of lat) = None \<or> py_float (str_of lon) = None"
  shows "get_crime py_float w lat lon = (Inl ValueError, w) \<and>
         (\<exists>alerts. fst (get_alerts w lat lon) =
            Inr (200, JObj [(''alerts'', JArr alerts), (''source'', JStr ''NWS'')])) \<and>
         fst (get_weather (world_answering (Inl Timeout)) lat lon) =
           Inr (502, JObj [(''current'', JNull), (''source'', JStr ''open-meteo''),
                           (''note'', JStr ''unavailable'')]) \<and>
         fst (get_weather
               (world_answering (Inr \<lparr>status_code = 200, body_text = ''{}'',
                                       json_result = Some (JObj [])\<rparr>)) lat lon) =
           Inr (200, JObj [(''current'', JObj []), (''source'', JStr ''open-meteo'')])"
proof (intro conjI)
  show "get_crime py_float w lat lon = (Inl ValueError, w)"
    using assms by (auto simp: get_crime_def split: option.splits)
  show "\<exists>alerts. fst (get_alerts w lat lon) =
            Inr (200, JObj [(''alerts'', JArr alerts), (''source'', JStr ''NWS'')])"
    using assms(1,2) by (rule get_alerts_always_200)
  show "fst (get_weather (world_answering (Inl Timeout)) lat lon) =
           Inr (502, JObj [(''current'', JNull), (''source'', JStr ''open-meteo''),
                           (''note'', JStr ''unavailable'')])"
    using assms(1,2) by (rule get_weather_sample_worlds(1))
  show "fst (get_weather
               (world_answering (Inr \<lparr>status_code = 200, body_text = ''{}'',
                                       json_result = Some (JObj [])\<rparr>)) lat lon) =
           Inr (200, JObj [(''current'', JObj []), (''source'', JStr ''open-meteo'')])"
    using assms(1,2) by (rule get_weather_sample_worlds(2))
qed

text \<open>
  The witness: \<^verbatim>\<open>lat=abc\<close>, once as the only bad coordinate and once with a good
  \<^verbatim>\<open>lat\<close> before a bad \<^verbatim>\<open>lon\<close>.
\<close>

theorem crime_float_unguarded_witness:
  "\<not> py_not (Some ''abc'') \<and> \<not> py_not (Some ''0'') \<and>
   example_float (str_of (Some ''abc'')) = None \<and>
   fst (get_crime example_float (world_answering (Inl Timeout)) (Some ''abc'') (Some ''0''))
     = Inl ValueError \<and>
   fst (get_crime example_float (world_answering (Inl Timeout)) (Some ''0'') (Some ''abc''))
     = Inl ValueError \<and>
   fst (get_alerts (world_answering (Inl Timeout)) (Some ''abc'') (Some ''0''))
     = Inr (200, JObj [(''alerts'', JArr []), (''source'', JStr ''NWS'')]) \<and>
   fst (get_weather
          (world_answering (Inr \<lparr>status_code = 200, body_text = ''{}'',
                                  json_result = Some (JObj [])\<rparr>)) (Some ''abc'') (Some ''0''))
     = Inr (200, JObj [(''current'', JObj []), (''source'', JStr ''open-meteo'')])"
proof -
  have p: "\<not> py_not (Some ''abc'')" "\<not> py_not (Some ''0'')"
    by simp_all
  have bad: "example_float (str_of (Some ''abc'')) = None"
    by (simp add: example_float_def)
  then have b1: "example_float (str_of (Some ''abc'')) = None \<or> example_float (str_of (Some ''0'')) = None"
    and b2: "example_float (str_of (Some ''0'')) = None \<or> example_float (str_of (Some ''abc'')) = None"
    by simp_all
  note first = crime_float_unguarded [where py_float = example_float, OF p(1) p(2) b1]
  note second = crime_float_unguarded [where py_float = example_float, OF p(2) p(1) b2]
  have al: "fst (get_alerts (world_answering (Inl Timeout)) (Some ''abc'') (Some ''0''))
     = Inr (200, JObj [(''alerts'', JArr []), (''source'', JStr ''NWS'')])"
    by (simp add: get_alerts_def alerts_fetch_def safe_get_def requests_get_def
        world_answering_def jsonify_def)
  from p bad al first [of "world_answering (Inl Timeout)"] second [of "world_answering (Inl Timeout)"]
  show ?thesis
    by simp
qed


section \<open>Properties of the feed extraction\<close>

lemma find_from_absent:
  "find_from sub s i = - 1 \<longleftrightarrow> \<not> sublist sub s" if "0 \<le> i"
  using that
proof (induction s arbitrary: i)
  case Nil
  then show ?case by auto
next
  case (Cons c cs)
  then show ?case
    by (auto simp: sublist_Cons_right)
qed

text \<open>\<^verbatim>\<open>s.find(sub)\<close> is -1 exactly when \<^verbatim>\<open>sub\<close> does not occur in \<^verbatim>\<open>s\<close>.\<close>

lemma str_find_absent: "str_find s sub = - 1 \<longleftrightarrow> \<not> sublist sub s"
  by (simp add: str_find_def find_from_absent)

lemma split_example:
  "split_at ''<item>''
     ''<item><title>Missing: Jane Doe</title><link>http://x</link><description>5yo female</description></item>''
   = [[], ''<title>Missing: Jane Doe</title><link>http://x</link><description>5yo female</description></item>'']"
  by (simp add: split_at.simps str_find_def)

lemma extract_item_example:
  "extract_item
     ''<title>Missing: Jane Doe</title><link>http://x</link><description>5yo female</description></item>''
   = JObj [(''title'', JStr ''Missing: Jane Doe''), (''link'', JStr ''http://x''),
           (''description'', JStr ''5yo female'')]"
  by (simp add: extract_item_def str_find_def Let_def slice_def slice_bound_def strip_def isspace_def)

lemma extract_item_no_title:
  assumes "\<not> (sublist ''<title>'' chunk \<and> sublist ''</title>'' chunk)"
  shows "\<exists>l d. extract_item chunk =
           JObj [(''title'', JStr ''AMBER Alert''), (''link'', JStr l), (''description'', JStr d)]"
proof -
  from assms have "str_find chunk ''<title>'' = - 1 \<or> str_find chunk ''</title>'' = - 1"
    by (simp only: str_find_absent de_Morgan_conj)
  then show ?thesis
    by (auto simp: extract_item_def Let_def)
qed

lemma extract_item_no_link:
  assumes "\<not> (sublist ''<link>'' chunk \<and> sublist ''</link>'' chunk)"
  shows "\<exists>t d. extract_item chunk =
           JObj [(''title'', JStr t), (''link'', JStr []), (''description'', JStr d)]"
proof -
  from assms have "str_find chunk ''<link>'' = - 1 \<or> str_find chunk ''</link>'' = - 1"
    by (simp only: str_find_absent de_Morgan_conj)
  then show ?thesis
    by (auto simp: extract_item_def Let_def)
qed

lemma extract_item_no_description:
  assumes "\<not> (sublist ''<description>'' chunk \<and> sublist ''</description>'' chunk)"
  shows "\<exists>t l. extract_item chunk =
           JObj [(''title'', JStr t), (''link'', JStr l), (''description'', JStr [])]"
proof -
  from assms
  have "str_find chunk ''<description>'' = - 1 \<or> str_find chunk ''</description>'' = - 1"
    by (simp only: str_find_absent de_Morgan_conj)
  then show ?thesis
    by (auto simp: extract_item_def Let_def)
qed

text \<open>
  Claim C4. On the body
  \<^verbatim>\<open><item><title>Missing: Jane Doe</title><link>http://x</link><description>5yo female</description></item>\<close>
  the extraction yields the one item with title "Missing: Jane Doe", link "http://x" and
  description "5yo female". For every chunk in which the text \<^verbatim>\<open><title>\<close> or the text
  \<^verbatim>\<open></title>\<close> does not occur, the extracted title is "AMBER Alert"; for every chunk
  without the pair of link tags the link is the empty string, and for every chunk without
  the pair of description tags the description is the empty string.
\<close>

theorem feed_items_extracted:
  "extract_items
     ''<item><title>Missing: Jane Doe</title><link>http://x</link><description>5yo female</description></item>''
     = Inr [JObj [(''title'', JStr ''Missing: Jane Doe''), (''link'', JStr ''http://x''),
                  (''description'', JStr ''5yo female'')]] \<and>
   (\<forall>chunk. \<not> (sublist ''<title>'' chunk \<and> sublist ''</title>'' chunk) \<longrightarrow>
      (\<exists>l d. extract_item chunk =
         JObj [(''title'', JStr ''AMBER Alert''), (''link'', JStr l), (''description'', JStr d)])) \<and>
   (\<forall>chunk. \<not> (sublist ''<link>'' chunk \<and> sublist ''</link>'' chunk) \<longrightarrow>
      (\<exists>t d. extract_item chunk =
         JObj [(''title'', JStr t), (''link'', JStr []), (''description'', JStr d)])) \<and>
   (\<forall>chunk. \<not> (sublist ''<description>'' chunk \<and> sublist ''</description>'' chunk) \<longrightarrow>
      (\<exists>t l. extract_item chunk =
         JObj [(''title'', JStr t), (''link'', JStr l), (''description'', JStr [])]))"
proof (intro conjI allI impI)
  show "extract_items
     ''<item><title>Missing: Jane Doe</title><link>http://x</link><description>5yo female</description></item>''
     = Inr [JObj [(''title'', JStr ''Missing: Jane Doe''), (''link'', JStr ''http://x''),
                  (''description'', JStr ''5yo female'')]]"
    by (simp add: extract_items_def str_split_def split_example extract_item_example)
qed (rule extract_item_no_title extract_item_no_link extract_item_no_description, assumption)+

text \<open>
  The witness: a chunk with a link only gets the placeholder title and an empty
  description; a chunk with a title only gets an empty link. The endpoint sends the
  extracted items of the example body with status 200.
\<close>

theorem feed_items_extracted_witness:
  "\<not> (sublist ''<title>'' ''<link>http://y</link></item>'' \<and>
       sublist ''</title>'' ''<link>http://y</link></item>'') \<and>
   \<not> (sublist ''<description>'' ''<link>http://y</link></item>'' \<and>
       sublist ''</description>'' ''<link>http://y</link></item>'') \<and>
   extract_item ''<link>http://y</link></item>'' =
     JObj [(''title'', JStr ''AMBER Alert''), (''link'', JStr ''http://y''),
           (''description'', JStr [])] \<and>
   \<not> (sublist ''<link>'' ''<title> Found </title>'' \<and> sublist ''</link>'' ''<title> Found </title>'') \<and>
   extract_item ''<title> Found </title>'' =
     JObj [(''title'', JStr ''Found''), (''link'', JStr []), (''description'', JStr [])] \<and>
   fst (get_amber (world_answering (Inr \<lparr>status_code = 200,
          body_text = ''<item><title>Missing: Jane Doe</title><link>http://x</link><description>5yo female</description></item>'',
          json_result = None\<rparr>)))
     = Inr (200, JObj [(''items'', JArr [JObj [(''title'', JStr ''Missing: Jane Doe''),
                                               (''link'', JStr ''http://x''),
                                               (''description'', JStr ''5yo female'')]]),
                       (''source'', JStr ''NCMEC'')])"
proof -
  have h1: "\<not> (sublist ''<title>'' ''<link>http://y</link></item>'' \<and>
       sublist ''</title>'' ''<link>http://y</link></item>'')"
    by (simp add: sublist_Cons_right)
  have h2: "\<not> (sublist ''<description>'' ''<link>http://y</link></item>'' \<and>
       sublist ''</description>'' ''<link>http://y</link></item>'')"
    by (simp add: sublist_Cons_right)
  have h3: "\<not> (sublist ''<link>'' ''<title> Found </title>'' \<and>
       sublist ''</link>'' ''<title> Found </title>'')"
    by (simp add: sublist_Cons_right)
  have e1: "extract_item ''<link>http://y</link></item>'' =
     JObj [(''title'', JStr ''AMBER Alert''), (''link'', JStr ''http://y''),
           (''description'', JStr [])]"
    by (simp add: extract_item_def str_find_def Let_def slice_def slice_bound_def strip_def
        isspace_def)
  have e2: "extract_item ''<title> Found </title>'' =
     JObj [(''title'', JStr ''Found''), (''link'', JStr []), (''description'', JStr [])]"
    by (simp add: extract_item_def str_find_def Let_def slice_def slice_bound_def strip_def
        isspace_def)
  have items: "extract_items
     ''<item><title>Missing: Jane Doe</title><link>http://x</link><description>5yo female</description></item>''
     = Inr [JObj [(''title'', JStr ''Missing: Jane Doe''), (''link'', JStr ''http://x''),
                  (''description'', JStr ''5yo female'')]]"
    using feed_items_extracted by blast
  from feed_items_extracted h1
  have t1: "\<exists>l d. extract_item ''<link>http://y</link></item>'' =
      JObj [(''title'', JStr ''AMBER Alert''), (''link'', JStr l), (''description'', JStr d)]"
    by blast
  from feed_items_extracted h3
  have t3: "\<exists>t d. extract_item ''<title> Found </title>'' =
      JObj [(''title'', JStr t), (''link'', JStr []), (''description'', JStr d)]"
    by blast
  have "fst (get_amber (world_answering (Inr \<lparr>status_code = 200,
          body_text = ''<item><title>Missing: Jane Doe</title><link>http://x</link><description>5yo female</description></item>'',
          json_result = None\<rparr>)))
     = Inr (200, JObj [(''items'', JArr [JObj [(''title'', JStr ''Missing: Jane Doe''),
                                               (''link'', JStr ''http://x''),
                                               (''description'', JStr ''5yo female'')]]),
                       (''source'', JStr ''NCMEC'')])"
    by (simp add: get_amber_def safe_get_def requests_get_def raise_for_status_def ok_def
        world_answering_def jsonify_def items)
  with h1 h2 h3 e1 e2 t1 t3 show ?thesis
    by simp
qed


end
